theory Spec2Isabelle
  imports Complex_Main
begin

section \<open>Data model of the arbitrage detector\<close>

text \<open>
  The embedding follows \<^verbatim>\<open>analytics-modules/arbitrage/arbitrage_detector.py\<close>.
  Python numbers (prices, thresholds, bankrolls) are modelled as \<^typ>\<open>real\<close>: the arithmetic
  is the exact arithmetic of the formulas, while the program computes on binary floating
  point. The two agree on which branch is taken except where a comparison is decided by a
  rounding error, so the concrete instances below that sit on a boundary use numbers that
  the program computes exactly (sums and quotients of small dyadic values).
  Every exception the source can raise is a value of \<open>error\<close>.
\<close>

datatype error = ZeroDivisionError | AttributeError | ParserError

text \<open>\<^verbatim>\<open>d.get(k, default)\<close> on a dictionary whose key may be absent.\<close>

definition dict_get :: "'a option \<Rightarrow> 'a \<Rightarrow> 'a" where
  "dict_get v dflt = (case v of None \<Rightarrow> dflt | Some x \<Rightarrow> x)"

text \<open>The nested dictionaries of \<^verbatim>\<open>game_data\<close>; an absent key is \<open>None\<close>.\<close>

record outcome =
  oc_name :: "string option"
  oc_price :: "real option"

record market =
  mk_key :: "string option"
  mk_outcomes :: "outcome list"

record bookmaker =
  bm_title :: "string option"
  bm_markets :: "market list"

record game =
  gd_id :: "string option"
  gd_sport_title :: "string option"
  gd_home_team :: "string option"
  gd_away_team :: "string option"
  gd_commence_time :: "string option"
  gd_bookmakers :: "bookmaker list"

text \<open>The dataclass \<^verbatim>\<open>ArbitrageOpportunity\<close>.\<close>

record arbitrage_opportunity =
  game_id :: string
  sport :: string
  home_team :: string
  away_team :: string
  commence_time :: string
  best_home_odds :: real
  best_home_bookmaker :: string
  best_away_odds :: real
  best_away_bookmaker :: string
  profit_percentage :: real
  stake_home :: real
  stake_away :: real
  guaranteed_return :: real
  risk_level :: string
  time_sensitivity :: string
  detected_at :: string

text \<open>The instance state of \<^verbatim>\<open>ArbitrageDetector\<close>.\<close>

record arbitrage_detector =
  min_profit_threshold :: real
  max_profit_threshold :: real
  opportunities_found :: "arbitrage_opportunity list"

definition init_detector :: "real \<Rightarrow> real \<Rightarrow> arbitrage_detector" where
  "init_detector min_t max_t =
     \<lparr>min_profit_threshold = min_t, max_profit_threshold = max_t, opportunities_found = []\<rparr>"

definition default_detector :: arbitrage_detector where
  "default_detector = init_detector (1 / 100) (15 / 100)"

text \<open>
  What a call reads from outside the program: \<open>to_datetime\<close> stands for
  \<^verbatim>\<open>pd.to_datetime\<close> on a string (the parsed instant in seconds, or the exception raised),
  \<open>timestamp_now\<close> for \<^verbatim>\<open>pd.Timestamp.now\<close> in seconds and \<open>now_isoformat\<close> for
  \<^verbatim>\<open>datetime.now().isoformat()\<close>.
\<close>

record env =
  to_datetime :: "string \<Rightarrow> error + real"
  timestamp_now :: real
  now_isoformat :: string

text \<open>The dictionaries \<^verbatim>\<open>{'odds': ..., 'bookmaker': ...}\<close> of the maximum search.\<close>

record best_quote =
  bq_odds :: real
  bq_bookmaker :: string

text \<open>The dictionary returned by \<^verbatim>\<open>calculate_optimal_stakes\<close>.\<close>

record stakes =
  st_stake_home :: real
  st_stake_away :: real
  st_total_staked :: real
  st_expected_profit :: real
  st_profit_percentage :: real
  st_home_wins_return :: real
  st_away_wins_return :: real

section \<open>Operations\<close>

text \<open>
  \<^verbatim>\<open>_odds_to_probability\<close>. No branch can divide by zero: the divisors are at least
  2, more than 100 and at least 100.
\<close>

definition odds_to_probability :: "real \<Rightarrow> real" where
  "odds_to_probability odds =
     (if odds \<ge> 2 then 1 / odds
      else if odds > 0 then 100 / (odds + 100)
      else \<bar>odds\<bar> / (\<bar>odds\<bar> + 100))"

definition known_bookmakers :: "string list" where
  "known_bookmakers = [''DraftKings'', ''FanDuel'', ''BetMGM'', ''Caesars'', ''PointsBet'']"

definition assess_risk :: "real \<Rightarrow> real \<Rightarrow> real \<Rightarrow> string \<Rightarrow> string \<Rightarrow> string" where
  "assess_risk profit_pct home_odds away_odds home_bookmaker away_bookmaker =
     (if profit_pct > 5 / 100 then ''high''
      else if home_odds < 11 / 10 \<or> away_odds < 11 / 10 then ''medium''
      else if home_bookmaker \<notin> set known_bookmakers \<or> away_bookmaker \<notin> set known_bookmakers
        then ''medium''
      else ''low'')"

text \<open>
  The body of the \<^verbatim>\<open>try\<close> block of \<^verbatim>\<open>_assess_time_sensitivity\<close>. A missing
  \<^verbatim>\<open>commence_time\<close> makes \<^verbatim>\<open>pd.to_datetime(None)\<close> return \<^verbatim>\<open>None\<close>, whose attribute
  \<^verbatim>\<open>tz\<close> does not exist.
\<close>

definition time_sensitivity_body :: "env \<Rightarrow> game \<Rightarrow> real \<Rightarrow> error + string" where
  "time_sensitivity_body e game_data profit_pct =
     (case gd_commence_time game_data of
        None \<Rightarrow> Inl AttributeError
      | Some s \<Rightarrow>
          (case to_datetime e s of
             Inl err \<Rightarrow> Inl err
           | Inr game_time \<Rightarrow>
               (let hours_until = (game_time - timestamp_now e) / 3600
                in if profit_pct > 3 / 100 then Inr ''urgent''
                   else if hours_until < 2 then Inr ''urgent''
                   else if hours_until > 48 then Inr ''stable''
                   else Inr ''moderate'')))"

text \<open>\<^verbatim>\<open>_assess_time_sensitivity\<close>: \<^verbatim>\<open>except Exception\<close> turns every raise into a value.\<close>

definition assess_time_sensitivity :: "env \<Rightarrow> game \<Rightarrow> real \<Rightarrow> string" where
  "assess_time_sensitivity e game_data profit_pct =
     (case time_sensitivity_body e game_data profit_pct of
        Inl _ \<Rightarrow> ''moderate''
      | Inr s \<Rightarrow> s)"

text \<open>
  \<^verbatim>\<open>_calculate_arbitrage\<close>. \<^verbatim>\<open>1.0 / total_prob\<close> raises when the total is zero, which
  needs both prices to be zero. The three comparisons are the source's, on the exact values
  of \<^verbatim>\<open>total_prob\<close> and \<^verbatim>\<open>profit_pct\<close>; the program compares the rounded values, which
  can fall on the other side of a threshold that the exact value meets (best prices 2 and
  2.5 give the exact profit 1/9 and a computed profit just above the double nearest 1/9).
\<close>

definition calculate_arbitrage ::
  "arbitrage_detector \<Rightarrow> env \<Rightarrow> game \<Rightarrow> real \<Rightarrow> string \<Rightarrow> real \<Rightarrow> string
     \<Rightarrow> error + arbitrage_opportunity option" where
  "calculate_arbitrage self e game_data home_odds home_bookmaker away_odds away_bookmaker =
     (let home_prob = odds_to_probability home_odds;
          away_prob = odds_to_probability away_odds;
          total_prob = home_prob + away_prob
      in if total_prob \<ge> 1 then Inr None
         else if total_prob = 0 then Inl ZeroDivisionError
         else
           (let profit_pct = 1 / total_prob - 1
            in if profit_pct < min_profit_threshold self then Inr None
               else if profit_pct > max_profit_threshold self then Inr None
               else
                 (let stake_home_v = home_prob / total_prob;
                      stake_away_v = away_prob / total_prob;
                      guaranteed_return_v = profit_pct;
                      risk_level_v =
                        assess_risk profit_pct home_odds away_odds home_bookmaker away_bookmaker;
                      time_sensitivity_v = assess_time_sensitivity e game_data profit_pct
                  in Inr (Some
                       \<lparr>game_id = dict_get (gd_id game_data) '''',
                        sport = dict_get (gd_sport_title game_data) '''',
                        home_team = dict_get (gd_home_team game_data) '''',
                        away_team = dict_get (gd_away_team game_data) '''',
                        commence_time = dict_get (gd_commence_time game_data) '''',
                        best_home_odds = home_odds,
                        best_home_bookmaker = home_bookmaker,
                        best_away_odds = away_odds,
                        best_away_bookmaker = away_bookmaker,
                        profit_percentage = profit_pct * 100,
                        stake_home = stake_home_v * 100,
                        stake_away = stake_away_v * 100,
                        guaranteed_return = guaranteed_return_v * 100,
                        risk_level = risk_level_v,
                        time_sensitivity = time_sensitivity_v,
                        detected_at = now_isoformat e\<rparr>))))"

text \<open>
  The three nested loops of \<^verbatim>\<open>scan_game\<close>, innermost first. The state of the loops is the
  pair \<^verbatim>\<open>(best_home, best_away)\<close>.
\<close>

definition update_best ::
  "string \<Rightarrow> string \<Rightarrow> string \<Rightarrow> outcome \<Rightarrow> best_quote \<times> best_quote \<Rightarrow> best_quote \<times> best_quote"
  where
  "update_best home_team_v away_team_v bookmaker_name oc best =
     (let odds = dict_get (oc_price oc) 0;
          team = dict_get (oc_name oc) ''''
      in if team = home_team_v \<and> odds > bq_odds (fst best)
           then (\<lparr>bq_odds = odds, bq_bookmaker = bookmaker_name\<rparr>, snd best)
         else if team = away_team_v \<and> odds > bq_odds (snd best)
           then (fst best, \<lparr>bq_odds = odds, bq_bookmaker = bookmaker_name\<rparr>)
         else best)"

fun scan_outcomes ::
  "string \<Rightarrow> string \<Rightarrow> string \<Rightarrow> outcome list \<Rightarrow> best_quote \<times> best_quote \<Rightarrow> best_quote \<times> best_quote"
  where
  "scan_outcomes h a bn [] best = best"
| "scan_outcomes h a bn (oc # ocs) best = scan_outcomes h a bn ocs (update_best h a bn oc best)"

fun scan_markets ::
  "string \<Rightarrow> string \<Rightarrow> string \<Rightarrow> market list \<Rightarrow> best_quote \<times> best_quote \<Rightarrow> best_quote \<times> best_quote"
  where
  "scan_markets h a bn [] best = best"
| "scan_markets h a bn (m # ms) best =
     scan_markets h a bn ms
       (if mk_key m = Some ''h2h'' then scan_outcomes h a bn (mk_outcomes m) best else best)"

fun scan_bookmakers ::
  "string \<Rightarrow> string \<Rightarrow> bookmaker list \<Rightarrow> best_quote \<times> best_quote \<Rightarrow> best_quote \<times> best_quote"
  where
  "scan_bookmakers h a [] best = best"
| "scan_bookmakers h a (b # bs) best =
     scan_bookmakers h a bs
       (scan_markets h a (dict_get (bm_title b) ''Unknown'') (bm_markets b) best)"

definition unset_quote :: best_quote where
  "unset_quote = \<lparr>bq_odds = 0, bq_bookmaker = ''''\<rparr>"

definition best_quotes :: "game \<Rightarrow> best_quote \<times> best_quote" where
  "best_quotes game_data =
     scan_bookmakers (dict_get (gd_home_team game_data) '''') (dict_get (gd_away_team game_data) '''')
       (gd_bookmakers game_data) (unset_quote, unset_quote)"

text \<open>
  \<^verbatim>\<open>scan_game\<close>: the result and the detector with the opportunity appended to its
  history.
\<close>

definition scan_game ::
  "arbitrage_detector \<Rightarrow> env \<Rightarrow> game
     \<Rightarrow> error + (arbitrage_opportunity option \<times> arbitrage_detector)" where
  "scan_game self e game_data =
     (if length (gd_bookmakers game_data) < 2 then Inr (None, self)
      else
        (let best_home = fst (best_quotes game_data);
             best_away = snd (best_quotes game_data)
         in if bq_odds best_home = 0 \<or> bq_odds best_away = 0 then Inr (None, self)
            else
              (case calculate_arbitrage self e game_data
                      (bq_odds best_home) (bq_bookmaker best_home)
                      (bq_odds best_away) (bq_bookmaker best_away) of
                 Inl err \<Rightarrow> Inl err
               | Inr None \<Rightarrow> Inr (None, self)
               | Inr (Some opportunity) \<Rightarrow>
                   Inr (Some opportunity,
                        self\<lparr>opportunities_found := opportunities_found self @ [opportunity]\<rparr>))))"

text \<open>
  The loop of \<^verbatim>\<open>scan_multiple_games\<close>. The clock moves between the scans, so the
  environment is a function of the position of the game in the list.
\<close>

fun scan_loop ::
  "arbitrage_detector \<Rightarrow> (nat \<Rightarrow> env) \<Rightarrow> nat \<Rightarrow> game list \<Rightarrow> arbitrage_opportunity list
     \<Rightarrow> error + (arbitrage_opportunity list \<times> arbitrage_detector)" where
  "scan_loop self ev i [] opportunities = Inr (opportunities, self)"
| "scan_loop self ev i (g # gs) opportunities =
     (case scan_game self (ev i) g of
        Inl err \<Rightarrow> Inl err
      | Inr (None, self') \<Rightarrow> scan_loop self' ev (Suc i) gs opportunities
      | Inr (Some opp, self') \<Rightarrow> scan_loop self' ev (Suc i) gs (opportunities @ [opp]))"

text \<open>
  \<^verbatim>\<open>list.sort(key=..., reverse=True)\<close>: Python's sort is stable, and \<^verbatim>\<open>reverse=True\<close>
  sorts as if every comparison were reversed, so that elements with equal keys keep their
  order. On real keys this is the stable insertion sort on the negated key.
\<close>

definition sort_reverse :: "('a \<Rightarrow> real) \<Rightarrow> 'a list \<Rightarrow> 'a list" where
  "sort_reverse k xs = sort_key (\<lambda>x. - k x) xs"

definition scan_multiple_games ::
  "arbitrage_detector \<Rightarrow> (nat \<Rightarrow> env) \<Rightarrow> game list
     \<Rightarrow> error + (arbitrage_opportunity list \<times> arbitrage_detector)" where
  "scan_multiple_games self ev games =
     (case scan_loop self ev 0 games [] of
        Inl err \<Rightarrow> Inl err
      | Inr (opportunities, self') \<Rightarrow> Inr (sort_reverse profit_percentage opportunities, self'))"

text \<open>
  \<^verbatim>\<open>round(x, 2)\<close>: to the nearest multiple of a hundredth, a tie to the even one.
\<close>

definition round_half_even :: "real \<Rightarrow> int" where
  "round_half_even x =
     (let f = \<lfloor>x\<rfloor>; d = x - of_int f
      in if d < 1 / 2 then f
         else if d > 1 / 2 then f + 1
         else if even f then f else f + 1)"

definition round2 :: "real \<Rightarrow> real" where
  "round2 x = of_int (round_half_even (x * 100)) / 100"

text \<open>The local variables of \<^verbatim>\<open>calculate_optimal_stakes\<close>, before rounding.\<close>

definition stake_home_amount :: "arbitrage_opportunity \<Rightarrow> real \<Rightarrow> real" where
  "stake_home_amount opportunity total_bankroll = (stake_home opportunity / 100) * total_bankroll"

definition stake_away_amount :: "arbitrage_opportunity \<Rightarrow> real \<Rightarrow> real" where
  "stake_away_amount opportunity total_bankroll = (stake_away opportunity / 100) * total_bankroll"

definition home_wins_return :: "arbitrage_opportunity \<Rightarrow> real \<Rightarrow> real" where
  "home_wins_return opportunity total_bankroll =
     stake_home_amount opportunity total_bankroll * best_home_odds opportunity"

definition away_wins_return :: "arbitrage_opportunity \<Rightarrow> real \<Rightarrow> real" where
  "away_wins_return opportunity total_bankroll =
     stake_away_amount opportunity total_bankroll * best_away_odds opportunity"

text \<open>
  \<^verbatim>\<open>calculate_optimal_stakes\<close>. The only raise is \<^verbatim>\<open>profit / total_bankroll\<close> at a
  bankroll of zero; the bankroll is not validated.
\<close>

definition calculate_optimal_stakes :: "arbitrage_opportunity \<Rightarrow> real \<Rightarrow> error + stakes" where
  "calculate_optimal_stakes opportunity total_bankroll =
     (let profit = home_wins_return opportunity total_bankroll - total_bankroll
      in if total_bankroll = 0 then Inl ZeroDivisionError
         else Inr
           \<lparr>st_stake_home = round2 (stake_home_amount opportunity total_bankroll),
            st_stake_away = round2 (stake_away_amount opportunity total_bankroll),
            st_total_staked =
              round2 (stake_home_amount opportunity total_bankroll
                      + stake_away_amount opportunity total_bankroll),
            st_expected_profit = round2 profit,
            st_profit_percentage = round2 ((profit / total_bankroll) * 100),
            st_home_wins_return = round2 (home_wins_return opportunity total_bankroll),
            st_away_wins_return = round2 (away_wins_return opportunity total_bankroll)\<rparr>)"

text \<open>
  The spec's profit fraction is the local \<^verbatim>\<open>profit_pct\<close>; the record stores it times 100.
\<close>

definition profit_fraction :: "arbitrage_opportunity \<Rightarrow> real" where
  "profit_fraction opportunity = profit_percentage opportunity / 100"

section \<open>Notions used to state the properties\<close>

text \<open>The quotes that the loops of \<^verbatim>\<open>scan_game\<close> visit, in the order of the visit.\<close>

definition h2h_of_markets :: "market list \<Rightarrow> outcome list" where
  "h2h_of_markets ms = concat (map mk_outcomes (filter (\<lambda>m. mk_key m = Some ''h2h'') ms))"

definition h2h_outcomes :: "game \<Rightarrow> outcome list" where
  "h2h_outcomes game_data =
     concat (map (\<lambda>b. h2h_of_markets (bm_markets b)) (gd_bookmakers game_data))"

text \<open>The \<^verbatim>\<open>bookmaker_name\<close> of each iteration of the outer loop.\<close>

definition bookmaker_names :: "game \<Rightarrow> string list" where
  "bookmaker_names game_data =
     map (\<lambda>b. dict_get (bm_title b) ''Unknown'') (gd_bookmakers game_data)"

text \<open>
  The values of the locals \<^verbatim>\<open>total_prob\<close> and \<^verbatim>\<open>profit_pct\<close> of
  \<^verbatim>\<open>_calculate_arbitrage\<close> when it is called with the best prices of a game.
\<close>

definition game_total_prob :: "game \<Rightarrow> real" where
  "game_total_prob game_data =
     odds_to_probability (bq_odds (fst (best_quotes game_data)))
     + odds_to_probability (bq_odds (snd (best_quotes game_data)))"

definition game_profit_pct :: "game \<Rightarrow> real" where
  "game_profit_pct game_data = 1 / game_total_prob game_data - 1"

text \<open>The conditions under which \<^verbatim>\<open>scan_game\<close> reaches the constructor call.\<close>

definition accepts :: "arbitrage_detector \<Rightarrow> game \<Rightarrow> bool" where
  "accepts self g \<longleftrightarrow>
     2 \<le> length (gd_bookmakers g)
     \<and> bq_odds (fst (best_quotes g)) \<noteq> 0 \<and> bq_odds (snd (best_quotes g)) \<noteq> 0
     \<and> game_total_prob g < 1
     \<and> min_profit_threshold self \<le> game_profit_pct g
     \<and> game_profit_pct g \<le> max_profit_threshold self"

text \<open>The record that the constructor call builds.\<close>

definition built_opportunity :: "env \<Rightarrow> game \<Rightarrow> arbitrage_opportunity" where
  "built_opportunity e g =
     (let bh = fst (best_quotes g); ba = snd (best_quotes g) in
      \<lparr>game_id = dict_get (gd_id g) '''',
       sport = dict_get (gd_sport_title g) '''',
       home_team = dict_get (gd_home_team g) '''',
       away_team = dict_get (gd_away_team g) '''',
       commence_time = dict_get (gd_commence_time g) '''',
       best_home_odds = bq_odds bh,
       best_home_bookmaker = bq_bookmaker bh,
       best_away_odds = bq_odds ba,
       best_away_bookmaker = bq_bookmaker ba,
       profit_percentage = game_profit_pct g * 100,
       stake_home = odds_to_probability (bq_odds bh) / game_total_prob g * 100,
       stake_away = odds_to_probability (bq_odds ba) / game_total_prob g * 100,
       guaranteed_return = game_profit_pct g * 100,
       risk_level =
         assess_risk (game_profit_pct g) (bq_odds bh) (bq_odds ba)
           (bq_bookmaker bh) (bq_bookmaker ba),
       time_sensitivity = assess_time_sensitivity e g (game_profit_pct g),
       detected_at = now_isoformat e\<rparr>)"

text \<open>
  The results of \<^verbatim>\<open>scan_game\<close> that are not \<^verbatim>\<open>None\<close>, in the order of the games: the
  list that \<^verbatim>\<open>scan_multiple_games\<close> sorts.
\<close>

fun scan_results ::
  "arbitrage_detector \<Rightarrow> (nat \<Rightarrow> env) \<Rightarrow> nat \<Rightarrow> game list \<Rightarrow> arbitrage_opportunity list" where
  "scan_results self ev i [] = []"
| "scan_results self ev i (g # gs) =
     (case scan_game self (ev i) g of
        Inr (Some opp, _) \<Rightarrow> opp # scan_results self ev (Suc i) gs
      | _ \<Rightarrow> scan_results self ev (Suc i) gs)"

section \<open>Example inputs\<close>

definition h2h_bookmaker :: "string \<Rightarrow> (string \<times> real) list \<Rightarrow> bookmaker" where
  "h2h_bookmaker t quotes =
     \<lparr>bm_title = Some t,
      bm_markets =
        [\<lparr>mk_key = Some ''h2h'',
          mk_outcomes = map (\<lambda>(n, p). \<lparr>oc_name = Some n, oc_price = Some p\<rparr>) quotes\<rparr>]\<rparr>"

definition example_game :: "string \<Rightarrow> string \<Rightarrow> bookmaker list \<Rightarrow> game" where
  "example_game i t bs =
     \<lparr>gd_id = Some i, gd_sport_title = Some ''NBA'', gd_home_team = Some ''Lakers'',
      gd_away_team = Some ''Celtics'', gd_commence_time = Some t, gd_bookmakers = bs\<rparr>"

text \<open>A clock about four days before the game, and a parser that knows one date.\<close>

definition example_env :: env where
  "example_env =
     \<lparr>to_datetime =
        (\<lambda>s. if s = ''2025-12-21T19:00:00Z'' then Inr 1766343600 else Inl ParserError),
      timestamp_now = 1766000000,
      now_isoformat = ''2025-12-17T19:33:20''\<rparr>"

text \<open>The game of \<^verbatim>\<open>demo_arbitrage_detection\<close>, with the team names shortened.\<close>

definition demo_game :: game where
  "demo_game = example_game ''arb_game_1'' ''2025-12-21T19:00:00Z''
     [h2h_bookmaker ''DraftKings'' [(''Lakers'', 215 / 100), (''Celtics'', 175 / 100)],
      h2h_bookmaker ''FanDuel'' [(''Lakers'', 170 / 100), (''Celtics'', 220 / 100)]]"

text \<open>The same quotes, in two entries that carry the same title.\<close>

definition same_title_game :: game where
  "same_title_game = example_game ''arb_game_1'' ''2025-12-21T19:00:00Z''
     [h2h_bookmaker ''DraftKings'' [(''Lakers'', 215 / 100), (''Celtics'', 175 / 100)],
      h2h_bookmaker ''DraftKings'' [(''Lakers'', 170 / 100), (''Celtics'', 220 / 100)]]"

text \<open>A best home price below 2 against a long shot.\<close>

definition lopsided_game :: game where
  "lopsided_game = example_game ''arb_game_2'' ''2025-12-21T19:00:00Z''
     [h2h_bookmaker ''DraftKings'' [(''Lakers'', 19 / 10), (''Celtics'', 150)],
      h2h_bookmaker ''FanDuel'' [(''Lakers'', 18 / 10), (''Celtics'', 200)]]"

text \<open>One bookmaker entry with four quotes.\<close>

definition single_bookmaker_game :: game where
  "single_bookmaker_game = example_game ''arb_game_3'' ''2025-12-21T19:00:00Z''
     [h2h_bookmaker ''DraftKings''
        [(''Lakers'', 215 / 100), (''Celtics'', 220 / 100), (''Lakers'', 3), (''Celtics'', 4)]]"

text \<open>Best prices 2 and 2: the implied probabilities sum to exactly 1.\<close>

definition even_game :: game where
  "even_game = example_game ''arb_game_4'' ''2025-12-21T19:00:00Z''
     [h2h_bookmaker ''DraftKings'' [(''Lakers'', 2), (''Celtics'', 19 / 10)],
      h2h_bookmaker ''FanDuel'' [(''Lakers'', 19 / 10), (''Celtics'', 2)]]"


text \<open>
  Best prices 2.5 and 2.5: probabilities 0.4 and 0.4, total 0.8, profit exactly 0.25 and
  stakes of exactly 50 percent, in floating point as well.
\<close>

definition quarter_game :: game where
  "quarter_game = example_game ''arb_game_8'' ''2025-12-21T19:00:00Z''
     [h2h_bookmaker ''DraftKings'' [(''Lakers'', 25 / 10), (''Celtics'', 19 / 10)],
      h2h_bookmaker ''FanDuel'' [(''Lakers'', 19 / 10), (''Celtics'', 25 / 10)]]"

definition quarter_opportunity :: arbitrage_opportunity where
  "quarter_opportunity =
     \<lparr>game_id = ''arb_game_8'', sport = ''NBA'', home_team = ''Lakers'', away_team = ''Celtics'',
      commence_time = ''2025-12-21T19:00:00Z'',
      best_home_odds = 25 / 10, best_home_bookmaker = ''DraftKings'',
      best_away_odds = 25 / 10, best_away_bookmaker = ''FanDuel'',
      profit_percentage = 25, stake_home = 50, stake_away = 50,
      guaranteed_return = 25, risk_level = ''high'', time_sensitivity = ''urgent'',
      detected_at = ''2025-12-17T19:33:20''\<rparr>"

text \<open>Every quote for the home team is an American negative price.\<close>

definition negative_home_game :: game where
  "negative_home_game = example_game ''arb_game_6'' ''2025-12-21T19:00:00Z''
     [h2h_bookmaker ''DraftKings'' [(''Lakers'', - 150), (''Celtics'', 3)],
      h2h_bookmaker ''FanDuel'' [(''Lakers'', - 120), (''Celtics'', 4)]]"

text \<open>The demo quotes with a start time that the parser rejects.\<close>

definition undated_game :: game where
  "undated_game = example_game ''arb_game_7'' ''tomorrow evening''
     [h2h_bookmaker ''DraftKings'' [(''Lakers'', 215 / 100), (''Celtics'', 175 / 100)],
      h2h_bookmaker ''FanDuel'' [(''Lakers'', 170 / 100), (''Celtics'', 220 / 100)]]"

text \<open>Three games with the profits 0.02, 0.05 and 0.02.\<close>

definition game_a :: game where
  "game_a = example_game ''game_a'' ''2025-12-21T19:00:00Z''
     [h2h_bookmaker ''DraftKings'' [(''Lakers'', 2), (''Celtics'', 19 / 10)],
      h2h_bookmaker ''FanDuel'' [(''Lakers'', 19 / 10), (''Celtics'', 102 / 49)]]"

definition game_b :: game where
  "game_b = example_game ''game_b'' ''2025-12-21T19:00:00Z''
     [h2h_bookmaker ''DraftKings'' [(''Lakers'', 2), (''Celtics'', 19 / 10)],
      h2h_bookmaker ''FanDuel'' [(''Lakers'', 19 / 10), (''Celtics'', 42 / 19)]]"

definition game_c :: game where
  "game_c = example_game ''game_c'' ''2025-12-21T19:00:00Z''
     [h2h_bookmaker ''DraftKings'' [(''Lakers'', 102 / 49), (''Celtics'', 19 / 10)],
      h2h_bookmaker ''FanDuel'' [(''Lakers'', 19 / 10), (''Celtics'', 2)]]"

definition tied_games :: "game list" where
  "tied_games = [game_a, game_b, game_c]"

text \<open>The opportunities that the scans of the examples return.\<close>

definition same_title_opportunity :: arbitrage_opportunity where
  "same_title_opportunity =
     \<lparr>game_id = ''arb_game_1'', sport = ''NBA'', home_team = ''Lakers'', away_team = ''Celtics'',
      commence_time = ''2025-12-21T19:00:00Z'',
      best_home_odds = 215 / 100, best_home_bookmaker = ''DraftKings'',
      best_away_odds = 220 / 100, best_away_bookmaker = ''DraftKings'',
      profit_percentage = 3800 / 435, stake_home = 4400 / 87, stake_away = 4300 / 87,
      guaranteed_return = 3800 / 435, risk_level = ''high'', time_sensitivity = ''urgent'',
      detected_at = ''2025-12-17T19:33:20''\<rparr>"

definition demo_opportunity :: arbitrage_opportunity where
  "demo_opportunity = same_title_opportunity\<lparr>best_away_bookmaker := ''FanDuel''\<rparr>"

definition lopsided_opportunity :: arbitrage_opportunity where
  "lopsided_opportunity =
     \<lparr>game_id = ''arb_game_2'', sport = ''NBA'', home_team = ''Lakers'', away_team = ''Celtics'',
      commence_time = ''2025-12-21T19:00:00Z'',
      best_home_odds = 19 / 10, best_home_bookmaker = ''DraftKings'',
      best_away_odds = 200, best_away_bookmaker = ''FanDuel'',
      profit_percentage = 278100 / 201019, stake_home = 20000000 / 201019,
      stake_away = 101900 / 201019,
      guaranteed_return = 278100 / 201019, risk_level = ''low'', time_sensitivity = ''stable'',
      detected_at = ''2025-12-17T19:33:20''\<rparr>"

section \<open>The maximum search\<close>

text \<open>A step of the search never lowers a best price.\<close>

lemma update_best_mono:
  "bq_odds (fst best) \<le> bq_odds (fst (update_best h a bn oc best))
   \<and> bq_odds (snd best) \<le> bq_odds (snd (update_best h a bn oc best))"
  by (simp add: update_best_def Let_def)

lemma scan_outcomes_mono:
  "bq_odds (fst best) \<le> bq_odds (fst (scan_outcomes h a bn ocs best))
   \<and> bq_odds (snd best) \<le> bq_odds (snd (scan_outcomes h a bn ocs best))"
proof (induction ocs arbitrary: best)
  case Nil
  show ?case by simp
next
  case (Cons oc ocs)
  from Cons [of "update_best h a bn oc best"] update_best_mono [of best h a bn oc]
  show ?case by simp
qed

lemma scan_markets_mono:
  "bq_odds (fst best) \<le> bq_odds (fst (scan_markets h a bn ms best))
   \<and> bq_odds (snd best) \<le> bq_odds (snd (scan_markets h a bn ms best))"
proof (induction ms arbitrary: best)
  case Nil
  show ?case by simp
next
  case (Cons m ms)
  show ?case
  proof (cases "mk_key m = Some ''h2h''")
    case True
    with Cons [of "scan_outcomes h a bn (mk_outcomes m) best"]
      scan_outcomes_mono [of best h a bn "mk_outcomes m"]
    show ?thesis by simp
  next
    case False
    with Cons [of best] show ?thesis by simp
  qed
qed

lemma scan_bookmakers_mono:
  "bq_odds (fst best) \<le> bq_odds (fst (scan_bookmakers h a bs best))
   \<and> bq_odds (snd best) \<le> bq_odds (snd (scan_bookmakers h a bs best))"
proof (induction bs arbitrary: best)
  case Nil
  show ?case by simp
next
  case (Cons b bs)
  from Cons [of "scan_markets h a (dict_get (bm_title b) ''Unknown'') (bm_markets b) best"]
    scan_markets_mono [of best h a "dict_get (bm_title b) ''Unknown''" "bm_markets b"]
  show ?case by simp
qed

lemma best_quotes_nonneg:
  "0 \<le> bq_odds (fst (best_quotes g)) \<and> 0 \<le> bq_odds (snd (best_quotes g))"
  using scan_bookmakers_mono [of "(unset_quote, unset_quote)"]
  by (simp add: best_quotes_def unset_quote_def)

text \<open>Quotes at or below zero leave a side of the search as it is.\<close>

lemma update_best_fst_unchanged:
  assumes "dict_get (oc_name oc) '''' = h \<longrightarrow> dict_get (oc_price oc) 0 \<le> 0"
    and "0 \<le> bq_odds (fst best)"
  shows "fst (update_best h a bn oc best) = fst best"
  using assms by (auto simp add: update_best_def Let_def)

lemma update_best_snd_unchanged:
  assumes "dict_get (oc_name oc) '''' = a \<longrightarrow> dict_get (oc_price oc) 0 \<le> 0"
    and "0 \<le> bq_odds (snd best)"
  shows "snd (update_best h a bn oc best) = snd best"
  using assms by (auto simp add: update_best_def Let_def)

lemma scan_outcomes_fst_unchanged:
  assumes "\<forall>oc \<in> set ocs. dict_get (oc_name oc) '''' = h \<longrightarrow> dict_get (oc_price oc) 0 \<le> 0"
    and "0 \<le> bq_odds (fst best)"
  shows "fst (scan_outcomes h a bn ocs best) = fst best"
  using assms
proof (induction ocs arbitrary: best)
  case Nil
  show ?case by simp
next
  case (Cons oc ocs)
  from Cons.prems have u: "fst (update_best h a bn oc best) = fst best"
    by (simp add: update_best_fst_unchanged)
  with Cons.prems Cons.IH [of "update_best h a bn oc best"] show ?case by simp
qed

lemma scan_outcomes_snd_unchanged:
  assumes "\<forall>oc \<in> set ocs. dict_get (oc_name oc) '''' = a \<longrightarrow> dict_get (oc_price oc) 0 \<le> 0"
    and "0 \<le> bq_odds (snd best)"
  shows "snd (scan_outcomes h a bn ocs best) = snd best"
  using assms
proof (induction ocs arbitrary: best)
  case Nil
  show ?case by simp
next
  case (Cons oc ocs)
  from Cons.prems have u: "snd (update_best h a bn oc best) = snd best"
    by (simp add: update_best_snd_unchanged)
  with Cons.prems Cons.IH [of "update_best h a bn oc best"] show ?case by simp
qed

lemma scan_markets_fst_unchanged:
  assumes "\<forall>oc \<in> set (h2h_of_markets ms).
             dict_get (oc_name oc) '''' = h \<longrightarrow> dict_get (oc_price oc) 0 \<le> 0"
    and "0 \<le> bq_odds (fst best)"
  shows "fst (scan_markets h a bn ms best) = fst best"
  using assms
proof (induction ms arbitrary: best)
  case Nil
  show ?case by simp
next
  case (Cons m ms)
  let ?b = "if mk_key m = Some ''h2h'' then scan_outcomes h a bn (mk_outcomes m) best else best"
  from Cons.prems have u: "fst ?b = fst best"
    by (auto simp add: h2h_of_markets_def intro!: scan_outcomes_fst_unchanged)
  from Cons.prems have r: "\<forall>oc \<in> set (h2h_of_markets ms).
             dict_get (oc_name oc) '''' = h \<longrightarrow> dict_get (oc_price oc) 0 \<le> 0"
    by (cases "mk_key m = Some ''h2h''") (simp_all add: h2h_of_markets_def)
  from Cons.IH [of ?b] r u Cons.prems(2) show ?case by simp
qed

lemma scan_markets_snd_unchanged:
  assumes "\<forall>oc \<in> set (h2h_of_markets ms).
             dict_get (oc_name oc) '''' = a \<longrightarrow> dict_get (oc_price oc) 0 \<le> 0"
    and "0 \<le> bq_odds (snd best)"
  shows "snd (scan_markets h a bn ms best) = snd best"
  using assms
proof (induction ms arbitrary: best)
  case Nil
  show ?case by simp
next
  case (Cons m ms)
  let ?b = "if mk_key m = Some ''h2h'' then scan_outcomes h a bn (mk_outcomes m) best else best"
  from Cons.prems have u: "snd ?b = snd best"
    by (auto simp add: h2h_of_markets_def intro!: scan_outcomes_snd_unchanged)
  from Cons.prems have r: "\<forall>oc \<in> set (h2h_of_markets ms).
             dict_get (oc_name oc) '''' = a \<longrightarrow> dict_get (oc_price oc) 0 \<le> 0"
    by (cases "mk_key m = Some ''h2h''") (simp_all add: h2h_of_markets_def)
  from Cons.IH [of ?b] r u Cons.prems(2) show ?case by simp
qed

lemma scan_bookmakers_fst_unchanged:
  assumes "\<forall>oc \<in> set (concat (map (\<lambda>b. h2h_of_markets (bm_markets b)) bs)).
             dict_get (oc_name oc) '''' = h \<longrightarrow> dict_get (oc_price oc) 0 \<le> 0"
    and "0 \<le> bq_odds (fst best)"
  shows "fst (scan_bookmakers h a bs best) = fst best"
  using assms
proof (induction bs arbitrary: best)
  case Nil
  show ?case by simp
next
  case (Cons b bs)
  let ?b = "scan_markets h a (dict_get (bm_title b) ''Unknown'') (bm_markets b) best"
  from Cons.prems have u: "fst ?b = fst best"
    by (simp add: scan_markets_fst_unchanged)
  from Cons.IH [of ?b] u Cons.prems show ?case by simp
qed

lemma scan_bookmakers_snd_unchanged:
  assumes "\<forall>oc \<in> set (concat (map (\<lambda>b. h2h_of_markets (bm_markets b)) bs)).
             dict_get (oc_name oc) '''' = a \<longrightarrow> dict_get (oc_price oc) 0 \<le> 0"
    and "0 \<le> bq_odds (snd best)"
  shows "snd (scan_bookmakers h a bs best) = snd best"
  using assms
proof (induction bs arbitrary: best)
  case Nil
  show ?case by simp
next
  case (Cons b bs)
  let ?b = "scan_markets h a (dict_get (bm_title b) ''Unknown'') (bm_markets b) best"
  from Cons.prems have u: "snd ?b = snd best"
    by (simp add: scan_markets_snd_unchanged)
  from Cons.IH [of ?b] u Cons.prems show ?case by simp
qed

lemma best_home_unset:
  assumes "\<forall>oc \<in> set (h2h_outcomes g).
     dict_get (oc_name oc) '''' = dict_get (gd_home_team g) ''''
     \<longrightarrow> dict_get (oc_price oc) 0 \<le> 0"
  shows "fst (best_quotes g) = unset_quote"
  using assms scan_bookmakers_fst_unchanged [of "gd_bookmakers g" "dict_get (gd_home_team g) ''''"
      "(unset_quote, unset_quote)" "dict_get (gd_away_team g) ''''"]
  by (simp add: best_quotes_def h2h_outcomes_def unset_quote_def)

lemma best_away_unset:
  assumes "\<forall>oc \<in> set (h2h_outcomes g).
     dict_get (oc_name oc) '''' = dict_get (gd_away_team g) ''''
     \<longrightarrow> dict_get (oc_price oc) 0 \<le> 0"
  shows "snd (best_quotes g) = unset_quote"
  using assms scan_bookmakers_snd_unchanged [of "gd_bookmakers g" "dict_get (gd_away_team g) ''''"
      "(unset_quote, unset_quote)" "dict_get (gd_home_team g) ''''"]
  by (simp add: best_quotes_def h2h_outcomes_def unset_quote_def)

section \<open>What a scan returns\<close>

lemma odds_to_probability_pos: "0 < odds \<Longrightarrow> 0 < odds_to_probability odds"
  by (simp add: odds_to_probability_def)

lemma game_total_prob_pos:
  assumes "bq_odds (fst (best_quotes g)) \<noteq> 0" and "bq_odds (snd (best_quotes g)) \<noteq> 0"
  shows "0 < odds_to_probability (bq_odds (fst (best_quotes g)))"
    and "0 < odds_to_probability (bq_odds (snd (best_quotes g)))"
    and "0 < game_total_prob g"
proof -
  from assms best_quotes_nonneg [of g]
  have "0 < bq_odds (fst (best_quotes g))" and "0 < bq_odds (snd (best_quotes g))"
    by simp_all
  then show "0 < odds_to_probability (bq_odds (fst (best_quotes g)))"
    and "0 < odds_to_probability (bq_odds (snd (best_quotes g)))"
    by (simp_all add: odds_to_probability_pos)
  then show "0 < game_total_prob g" by (simp add: game_total_prob_def)
qed

text \<open>
  The division by zero of \<^verbatim>\<open>_calculate_arbitrage\<close> is out of reach of \<^verbatim>\<open>scan_game\<close>,
  whose result is one of two values.
\<close>

lemma scan_game_eq:
  "scan_game self e g =
     (if accepts self g
      then Inr (Some (built_opportunity e g),
                self\<lparr>opportunities_found := opportunities_found self @ [built_opportunity e g]\<rparr>)
      else Inr (None, self))"
proof (cases "bq_odds (fst (best_quotes g)) \<noteq> 0 \<and> bq_odds (snd (best_quotes g)) \<noteq> 0")
  case True
  then have "0 < game_total_prob g" using game_total_prob_pos(3) by simp
  then have "odds_to_probability (bq_odds (fst (best_quotes g)))
     + odds_to_probability (bq_odds (snd (best_quotes g))) \<noteq> 0"
    by (simp add: game_total_prob_def)
  with True show ?thesis
    by (simp add: scan_game_def calculate_arbitrage_def accepts_def built_opportunity_def
        game_total_prob_def game_profit_pct_def Let_def not_less not_le)
next
  case False
  then show ?thesis
    by (auto simp add: scan_game_def accepts_def Let_def)
qed

lemma scan_game_accepted:
  assumes "scan_game self e g = Inr (Some opp, self')"
  shows "accepts self g" and "opp = built_opportunity e g"
  using assms by (simp_all add: scan_game_eq split: if_splits)

lemma accepts_thresholds:
  "min_profit_threshold a = min_profit_threshold b
   \<Longrightarrow> max_profit_threshold a = max_profit_threshold b \<Longrightarrow> accepts a g = accepts b g"
  by (simp add: accepts_def)

lemma scan_results_thresholds:
  "min_profit_threshold a = min_profit_threshold b
   \<Longrightarrow> max_profit_threshold a = max_profit_threshold b
   \<Longrightarrow> scan_results a ev i gs = scan_results b ev i gs"
proof (induction gs arbitrary: i)
  case Nil
  show ?case by simp
next
  case (Cons g gs)
  from Cons.prems have "accepts a g = accepts b g" by (rule accepts_thresholds)
  with Cons show ?case by (simp add: scan_game_eq)
qed

lemma scan_loop_eq:
  "\<exists>self'. scan_loop self ev i gs acc = Inr (acc @ scan_results self ev i gs, self')
     \<and> min_profit_threshold self' = min_profit_threshold self
     \<and> max_profit_threshold self' = max_profit_threshold self"
proof (induction gs arbitrary: self i acc)
  case Nil
  show ?case by simp
next
  case (Cons g gs)
  show ?case
  proof (cases "accepts self g")
    case True
    let ?o = "built_opportunity (ev i) g"
    let ?s = "self\<lparr>opportunities_found := opportunities_found self @ [?o]\<rparr>"
    from Cons [of ?s "Suc i" "acc @ [?o]"] obtain self' where
      l: "scan_loop ?s ev (Suc i) gs (acc @ [?o])
            = Inr ((acc @ [?o]) @ scan_results ?s ev (Suc i) gs, self')"
      and t: "min_profit_threshold self' = min_profit_threshold ?s"
        "max_profit_threshold self' = max_profit_threshold ?s"
      by blast
    have "scan_results ?s ev (Suc i) gs = scan_results self ev (Suc i) gs"
      by (rule scan_results_thresholds) simp_all
    with l t True show ?thesis by (simp add: scan_game_eq)
  next
    case False
    with Cons [of self "Suc i" acc] show ?thesis by (simp add: scan_game_eq)
  qed
qed

lemma percent_bounds: "0 \<le> y \<Longrightarrow> y \<le> 1 \<Longrightarrow> 0 \<le> y * 100 \<and> y * 100 \<le> (100::real)"
  by simp

text \<open>With both best prices at 2 or more, both payouts are the bankroll over the total.\<close>

lemma decimal_returns:
  assumes "scan_game self e g = Inr (Some opp, self')"
    and "2 \<le> best_home_odds opp" and "2 \<le> best_away_odds opp"
  shows "home_wins_return opp B = B * (1 + profit_fraction opp)"
    and "away_wins_return opp B = B * (1 + profit_fraction opp)"
proof -
  let ?oh = "bq_odds (fst (best_quotes g))"
  let ?oa = "bq_odds (snd (best_quotes g))"
  from assms(1) have opp: "opp = built_opportunity e g" by (rule scan_game_accepted)
  from assms(2,3) have oh: "2 \<le> ?oh" and oa: "2 \<le> ?oa"
    by (simp_all add: opp built_opportunity_def Let_def)
  then have ph: "odds_to_probability ?oh = 1 / ?oh" and pa: "odds_to_probability ?oa = 1 / ?oa"
    by (simp_all add: odds_to_probability_def)
  define t where "t = game_total_prob g"
  from oh oa have t: "0 < t" by (simp add: t_def game_total_prob_def ph pa add_pos_pos)
  have pf: "1 + profit_fraction opp = 1 / t"
    by (simp add: profit_fraction_def opp built_opportunity_def Let_def game_profit_pct_def t_def
        diff_divide_distrib)
  have sh: "stake_home opp = 1 / ?oh / t * 100" and sa: "stake_away opp = 1 / ?oa / t * 100"
    and bh: "best_home_odds opp = ?oh" and ba: "best_away_odds opp = ?oa"
    by (simp_all add: opp built_opportunity_def Let_def ph pa t_def)
  from oh t show "home_wins_return opp B = B * (1 + profit_fraction opp)"
    unfolding pf home_wins_return_def stake_home_amount_def sh bh by simp
  from oa t show "away_wins_return opp B = B * (1 + profit_fraction opp)"
    unfolding pf away_wins_return_def stake_away_amount_def sa ba by simp
qed

section \<open>The examples, evaluated\<close>

lemmas example_defs = h2h_bookmaker_def example_game_def example_env_def dict_get_def
  best_quotes_def unset_quote_def update_best_def Let_def

lemmas demo_opportunity_defs = demo_opportunity_def same_title_opportunity_def

lemmas tied_game_defs = game_a_def game_b_def game_c_def

lemma demo_best: "best_quotes demo_game =
   (\<lparr>bq_odds = 215 / 100, bq_bookmaker = ''DraftKings''\<rparr>,
    \<lparr>bq_odds = 220 / 100, bq_bookmaker = ''FanDuel''\<rparr>)"
  by (simp add: demo_game_def example_defs)

lemma same_title_best: "best_quotes same_title_game =
   (\<lparr>bq_odds = 215 / 100, bq_bookmaker = ''DraftKings''\<rparr>,
    \<lparr>bq_odds = 220 / 100, bq_bookmaker = ''DraftKings''\<rparr>)"
  by (simp add: same_title_game_def example_defs)

lemma lopsided_best: "best_quotes lopsided_game =
   (\<lparr>bq_odds = 19 / 10, bq_bookmaker = ''DraftKings''\<rparr>,
    \<lparr>bq_odds = 200, bq_bookmaker = ''FanDuel''\<rparr>)"
  by (simp add: lopsided_game_def example_defs)

lemma even_best: "best_quotes even_game =
   (\<lparr>bq_odds = 2, bq_bookmaker = ''DraftKings''\<rparr>, \<lparr>bq_odds = 2, bq_bookmaker = ''FanDuel''\<rparr>)"
  by (simp add: even_game_def example_defs)


lemma undated_best: "best_quotes undated_game =
   (\<lparr>bq_odds = 215 / 100, bq_bookmaker = ''DraftKings''\<rparr>,
    \<lparr>bq_odds = 220 / 100, bq_bookmaker = ''FanDuel''\<rparr>)"
  by (simp add: undated_game_def example_defs)

lemma tied_best:
  "best_quotes game_a =
     (\<lparr>bq_odds = 2, bq_bookmaker = ''DraftKings''\<rparr>,
      \<lparr>bq_odds = 102 / 49, bq_bookmaker = ''FanDuel''\<rparr>)"
  "best_quotes game_b =
     (\<lparr>bq_odds = 2, bq_bookmaker = ''DraftKings''\<rparr>,
      \<lparr>bq_odds = 42 / 19, bq_bookmaker = ''FanDuel''\<rparr>)"
  "best_quotes game_c =
     (\<lparr>bq_odds = 102 / 49, bq_bookmaker = ''DraftKings''\<rparr>,
      \<lparr>bq_odds = 2, bq_bookmaker = ''FanDuel''\<rparr>)"
  by (simp_all add: tied_game_defs example_defs)

lemma demo_total: "game_total_prob demo_game = 435 / 473"
  by (simp add: game_total_prob_def demo_best odds_to_probability_def)

lemma same_title_total: "game_total_prob same_title_game = 435 / 473"
  by (simp add: game_total_prob_def same_title_best odds_to_probability_def)

lemma lopsided_total: "game_total_prob lopsided_game = 201019 / 203800"
  by (simp add: game_total_prob_def lopsided_best odds_to_probability_def)

lemma even_total: "game_total_prob even_game = 1"
  by (simp add: game_total_prob_def even_best odds_to_probability_def)



lemma tied_total:
  "game_total_prob game_a = 50 / 51"
  "game_total_prob game_b = 20 / 21"
  "game_total_prob game_c = 50 / 51"
  by (simp_all add: game_total_prob_def tied_best odds_to_probability_def)

lemma tied_profit:
  "game_profit_pct game_a = 2 / 100"
  "game_profit_pct game_b = 5 / 100"
  "game_profit_pct game_c = 2 / 100"
  by (simp_all add: game_profit_pct_def tied_total)

lemma demo_accepts: "accepts default_detector demo_game"
  by (simp add: accepts_def demo_total game_profit_pct_def demo_best default_detector_def
      init_detector_def)
    (simp add: demo_game_def example_defs)

lemma same_title_accepts: "accepts default_detector same_title_game"
  by (simp add: accepts_def same_title_total game_profit_pct_def same_title_best
      default_detector_def init_detector_def)
    (simp add: same_title_game_def example_defs)

lemma lopsided_accepts: "accepts default_detector lopsided_game"
  by (simp add: accepts_def lopsided_total game_profit_pct_def lopsided_best default_detector_def
      init_detector_def)
    (simp add: lopsided_game_def example_defs)

lemma undated_accepts: "accepts default_detector undated_game"
  by (simp add: accepts_def game_total_prob_def game_profit_pct_def undated_best
      odds_to_probability_def default_detector_def init_detector_def)
    (simp add: undated_game_def example_defs)

lemma tied_accepts:
  "accepts default_detector game_a"
  "accepts default_detector game_b"
  "accepts default_detector game_c"
  by (simp_all add: accepts_def tied_total tied_profit tied_best default_detector_def
      init_detector_def)
    (simp_all add: tied_game_defs example_game_def)

lemma demo_built: "built_opportunity example_env demo_game = demo_opportunity"
  by (simp add: built_opportunity_def demo_best demo_total game_profit_pct_def Let_def
      odds_to_probability_def assess_risk_def known_bookmakers_def assess_time_sensitivity_def
      time_sensitivity_body_def demo_opportunity_defs)
    (simp add: demo_game_def example_defs)

lemma same_title_built: "built_opportunity example_env same_title_game = same_title_opportunity"
  by (simp add: built_opportunity_def same_title_best same_title_total game_profit_pct_def
      Let_def odds_to_probability_def assess_risk_def known_bookmakers_def
      assess_time_sensitivity_def time_sensitivity_body_def same_title_opportunity_def)
    (simp add: same_title_game_def example_defs)

lemma lopsided_built: "built_opportunity example_env lopsided_game = lopsided_opportunity"
  by (simp add: built_opportunity_def lopsided_best lopsided_total game_profit_pct_def Let_def
      odds_to_probability_def assess_risk_def known_bookmakers_def assess_time_sensitivity_def
      time_sensitivity_body_def lopsided_opportunity_def)
    (simp add: lopsided_game_def example_defs)

lemma tied_built:
  "profit_percentage (built_opportunity e game_a) = 2"
  "profit_percentage (built_opportunity e game_b) = 5"
  "profit_percentage (built_opportunity e game_c) = 2"
  "game_id (built_opportunity e game_a) = ''game_a''"
  "game_id (built_opportunity e game_b) = ''game_b''"
  "game_id (built_opportunity e game_c) = ''game_c''"
  by (simp_all add: built_opportunity_def tied_profit Let_def)
    (simp_all add: tied_game_defs example_game_def dict_get_def)

lemma quarter_best: "best_quotes quarter_game =
   (\<lparr>bq_odds = 25 / 10, bq_bookmaker = ''DraftKings''\<rparr>,
    \<lparr>bq_odds = 25 / 10, bq_bookmaker = ''FanDuel''\<rparr>)"
  by (simp add: quarter_game_def example_defs)

lemma quarter_total: "game_total_prob quarter_game = 8 / 10"
  by (simp add: game_total_prob_def quarter_best odds_to_probability_def)

lemma quarter_profit: "game_profit_pct quarter_game = 1 / 4"
  by (simp add: game_profit_pct_def quarter_total)

lemma quarter_accepts: "accepts (init_detector (1 / 8) (1 / 2)) quarter_game"
  by (simp add: accepts_def quarter_total quarter_profit quarter_best init_detector_def)
    (simp add: quarter_game_def example_game_def)

lemma quarter_built: "built_opportunity example_env quarter_game = quarter_opportunity"
  by (simp add: built_opportunity_def quarter_best quarter_total quarter_profit Let_def
      odds_to_probability_def assess_risk_def known_bookmakers_def assess_time_sensitivity_def
      time_sensitivity_body_def quarter_opportunity_def)
    (simp add: quarter_game_def example_defs)

lemma quarter_scan:
  "scan_game (init_detector (1 / 8) (1 / 2)) example_env quarter_game
     = Inr (Some quarter_opportunity,
            init_detector (1 / 8) (1 / 2)\<lparr>opportunities_found := [quarter_opportunity]\<rparr>)"
  by (simp add: scan_game_eq quarter_accepts quarter_built)
    (simp add: init_detector_def)

lemma demo_scan:
  "scan_game default_detector example_env demo_game
     = Inr (Some demo_opportunity, default_detector\<lparr>opportunities_found := [demo_opportunity]\<rparr>)"
  by (simp add: scan_game_eq demo_accepts demo_built)
    (simp add: default_detector_def init_detector_def)

lemma tied_scan:
  "scan_multiple_games default_detector (\<lambda>i. example_env) tied_games =
     Inr ([built_opportunity example_env game_b,
           built_opportunity example_env game_a,
           built_opportunity example_env game_c],
          default_detector\<lparr>opportunities_found :=
            [built_opportunity example_env game_a,
             built_opportunity example_env game_b,
             built_opportunity example_env game_c]\<rparr>)"
proof -
  have a: "accepts (s\<lparr>opportunities_found := x\<rparr>) g = accepts s g" for s x g
    by (simp add: accepts_def)
  show ?thesis
    apply (simp add: tied_games_def scan_multiple_games_def scan_game_eq a tied_accepts
        sort_reverse_def tied_built)
    apply (simp add: default_detector_def init_detector_def)
    done
qed

section \<open>Probability conversion\<close>

text \<open>
  C1, as stated: the conversion gives 0.4 at the American price 150. The source tests
  \<^verbatim>\<open>odds >= 2.0\<close> first, so 150 is converted as a decimal price.
\<close>

theorem odds_to_probability_150_counterexample:
  "odds_to_probability 150 = 1 / 150 \<and> odds_to_probability 150 \<noteq> 4 / 10"
  by (simp add: odds_to_probability_def)

text \<open>
  C1, amended: the conversion branches on the magnitude of the price alone. Every price of
  at least 2 gives \<open>1 / p\<close> (so 150 gives \<open>1 / 150\<close>), a price strictly between 0 and 2 gives
  \<open>100 / (p + 100)\<close>, a price of at most 0 gives \<open>|p| / (|p| + 100)\<close>, which is 0.6 at -150.
\<close>

theorem odds_to_probability_branches:
  "(2 \<le> p \<longrightarrow> odds_to_probability p = 1 / p)
   \<and> (0 < p \<and> p < 2 \<longrightarrow> odds_to_probability p = 100 / (p + 100))
   \<and> (p \<le> 0 \<longrightarrow> odds_to_probability p = \<bar>p\<bar> / (\<bar>p\<bar> + 100))
   \<and> odds_to_probability 150 = 1 / 150
   \<and> odds_to_probability (- 150) = 6 / 10"
  by (simp add: odds_to_probability_def)

theorem odds_to_probability_branches_witness:
  "odds_to_probability 4 = 1 / 4 \<and> odds_to_probability (3 / 2) = 200 / 203
   \<and> odds_to_probability (- 150) = 6 / 10"
  using odds_to_probability_branches [of 4] odds_to_probability_branches [of "3 / 2"]
  by simp

section \<open>Stake equalization\<close>

text \<open>
  C2: for every accepted opportunity both payouts are equal and are the bankroll times one
  plus the profit fraction. The source does not achieve this at the following input. With
  the default thresholds the scan accepts a game whose best home price is 1.9 against an
  away price of 200: \<^verbatim>\<open>_odds_to_probability\<close> converts 1.9 by the branch for prices
  between 0 and 2, as \<open>100 / 101.9\<close>, and \<^verbatim>\<open>calculate_optimal_stakes\<close> then multiplies
  the stake by 1.9 as a decimal price. For a bankroll of 100 the payouts are about 189.04
  on the home side and 101.38 on the away side, before and after rounding, although the
  source announces equal profit on both outcomes.
\<close>

theorem lopsided_game_unequal_payouts:
  "scan_game default_detector example_env lopsided_game
     = Inr (Some lopsided_opportunity,
            default_detector\<lparr>opportunities_found := [lopsided_opportunity]\<rparr>)
   \<and> stake_home_amount lopsided_opportunity 100 * best_home_odds lopsided_opportunity
       = 38000000 / 201019
   \<and> stake_away_amount lopsided_opportunity 100 * best_away_odds lopsided_opportunity
       = 20380000 / 201019
   \<and> 100 * (1 + profit_fraction lopsided_opportunity) = 20380000 / 201019
   \<and> calculate_optimal_stakes lopsided_opportunity 100
       = Inr \<lparr>st_stake_home = 9949 / 100, st_stake_away = 51 / 100, st_total_staked = 100,
              st_expected_profit = 8904 / 100, st_profit_percentage = 8904 / 100,
              st_home_wins_return = 18904 / 100, st_away_wins_return = 10138 / 100\<rparr>
   \<and> \<not> \<bar>stake_home_amount lopsided_opportunity 100 * best_home_odds lopsided_opportunity
         - stake_away_amount lopsided_opportunity 100 * best_away_odds lopsided_opportunity\<bar>
        \<le> 1 / 1000000
           * \<bar>stake_home_amount lopsided_opportunity 100 * best_home_odds lopsided_opportunity\<bar>"
  apply (intro conjI)
       apply (simp add: scan_game_eq lopsided_accepts lopsided_built)
       apply (simp add: default_detector_def init_detector_def)
      apply (simp add: stake_home_amount_def lopsided_opportunity_def)
     apply (simp add: stake_away_amount_def lopsided_opportunity_def)
    apply (simp add: profit_fraction_def lopsided_opportunity_def)
   apply (simp add: calculate_optimal_stakes_def home_wins_return_def away_wins_return_def
      stake_home_amount_def stake_away_amount_def lopsided_opportunity_def round2_def
      round_half_even_def Let_def)
  apply (simp add: stake_home_amount_def stake_away_amount_def lopsided_opportunity_def)
  done

text \<open>
  The sibling path: when both best prices are converted by the decimal branch (both at
  least 2), the stake amounts of \<^verbatim>\<open>calculate_optimal_stakes\<close> do give the same payout on
  both sides, the bankroll times one plus the profit fraction. The failure above belongs
  to the branch for prices below 2 alone.
\<close>

lemma decimal_prices_equalize:
  assumes "scan_game self e g = Inr (Some opp, self')"
    and "2 \<le> best_home_odds opp" and "2 \<le> best_away_odds opp" and "0 < B"
  shows "stake_home_amount opp B * best_home_odds opp = B * (1 + profit_fraction opp)
       \<and> stake_away_amount opp B * best_away_odds opp = B * (1 + profit_fraction opp)
       \<and> (\<exists>st. calculate_optimal_stakes opp B = Inr st
             \<and> st_home_wins_return st = round2 (B * (1 + profit_fraction opp))
             \<and> st_away_wins_return st = round2 (B * (1 + profit_fraction opp)))"
proof -
  note r = decimal_returns [OF assms(1-3), of B]
  from r have "stake_home_amount opp B * best_home_odds opp = B * (1 + profit_fraction opp)"
    and "stake_away_amount opp B * best_away_odds opp = B * (1 + profit_fraction opp)"
    by (simp_all add: home_wins_return_def away_wins_return_def)
  moreover from assms(4) r
  have "\<exists>st. calculate_optimal_stakes opp B = Inr st
             \<and> st_home_wins_return st = round2 (B * (1 + profit_fraction opp))
             \<and> st_away_wins_return st = round2 (B * (1 + profit_fraction opp))"
    by (simp add: calculate_optimal_stakes_def Let_def)
  ultimately show ?thesis by simp
qed

text \<open>
  The demo opportunity at a bankroll of 1000: equal payouts of 1087.36. The two stakes in
  the result are rounded to cents, so their products with the prices, 1087.3625 and
  1087.35, agree to the cent and not to one part in a million.
\<close>

lemma demo_stakes:
  "calculate_optimal_stakes demo_opportunity 1000
     = Inr \<lparr>st_stake_home = 50575 / 100, st_stake_away = 49425 / 100,
            st_total_staked = 1000, st_expected_profit = 8736 / 100,
            st_profit_percentage = 874 / 100,
            st_home_wins_return = 108736 / 100, st_away_wins_return = 108736 / 100\<rparr>"
  by (simp add: calculate_optimal_stakes_def home_wins_return_def away_wins_return_def
      stake_home_amount_def stake_away_amount_def demo_opportunity_defs
      round2_def round_half_even_def Let_def)

lemma demo_payouts_equal:
  "stake_home_amount demo_opportunity 1000 * (215 / 100) = 94600 / 87
   \<and> stake_away_amount demo_opportunity 1000 * (220 / 100) = 94600 / 87"
proof -
  have a: "2 \<le> best_home_odds demo_opportunity" "2 \<le> best_away_odds demo_opportunity"
    by (simp_all add: demo_opportunity_defs)
  have b: "(0::real) < 1000" by simp
  have p: "1000 * (1 + profit_fraction demo_opportunity) = 94600 / 87"
    by (simp add: profit_fraction_def demo_opportunity_defs)
  have o: "best_home_odds demo_opportunity = 215 / 100"
    "best_away_odds demo_opportunity = 220 / 100"
    by (simp_all add: demo_opportunity_defs)
  from decimal_prices_equalize [OF demo_scan a b] show ?thesis
    unfolding p o by simp
qed

section \<open>The bookmaker count\<close>

text \<open>
  C3, as stated: a game whose quotes come from fewer than two distinct bookmakers yields
  none. The source counts the entries of the list: two entries that carry the same title
  pass the test, and the scan returns an opportunity whose two sides name one bookmaker.
\<close>

theorem same_title_counterexample:
  "remdups (bookmaker_names same_title_game) = [''DraftKings'']
   \<and> scan_game default_detector example_env same_title_game
       = Inr (Some same_title_opportunity,
              default_detector\<lparr>opportunities_found := [same_title_opportunity]\<rparr>)"
  by (simp add: scan_game_eq same_title_accepts same_title_built)
    (simp add: same_title_game_def bookmaker_names_def example_defs default_detector_def
      init_detector_def)

text \<open>
  C3, amended: a game whose list of bookmakers has fewer than two entries yields none,
  whatever the number of quotes in the entry and whatever the prices. Entries are counted,
  not distinct titles.
\<close>

theorem scan_game_few_bookmakers:
  "length (gd_bookmakers g) < 2 \<Longrightarrow> scan_game self e g = Inr (None, self)"
  by (simp add: scan_game_def)

theorem scan_game_few_bookmakers_witness:
  "length (gd_bookmakers single_bookmaker_game) < 2
   \<and> scan_game default_detector example_env single_bookmaker_game = Inr (None, default_detector)"
proof -
  have h: "length (gd_bookmakers single_bookmaker_game) < 2"
    by (simp add: single_bookmaker_game_def example_game_def)
  from h scan_game_few_bookmakers [OF h] show ?thesis by simp
qed

section \<open>Stake fields\<close>

text \<open>
  C4, as stated: the two stake fields of a returned opportunity are numbers in \<open>[0, 1]\<close>
  that sum to 1. The record stores \<^verbatim>\<open>stake_home * 100\<close> and \<^verbatim>\<open>stake_away * 100\<close>: the
  scan of the demo game returns the stakes 50.57... and 49.42..., which sum to 100.
\<close>

theorem stake_fields_counterexample:
  "scan_game default_detector example_env demo_game
     = Inr (Some demo_opportunity, default_detector\<lparr>opportunities_found := [demo_opportunity]\<rparr>)
   \<and> stake_home demo_opportunity = 4400 / 87
   \<and> stake_away demo_opportunity = 4300 / 87
   \<and> \<not> stake_home demo_opportunity \<le> 1
   \<and> \<not> stake_away demo_opportunity \<le> 1
   \<and> stake_home demo_opportunity + stake_away demo_opportunity = 100
   \<and> stake_home demo_opportunity + stake_away demo_opportunity \<noteq> 1"
  by (simp add: demo_scan) (simp add: demo_opportunity_defs)

text \<open>
  C4, amended: every opportunity that a scan returns has \<^verbatim>\<open>stake_home\<close> and
  \<^verbatim>\<open>stake_away\<close> each a percentage in \<open>[0, 100]\<close>, and the two fields sum to 100 up to
  the rounding of the arithmetic (within \<open>10\<^sup>-\<^sup>9\<close>; in exact arithmetic the sum is 100).
\<close>

theorem stake_percentages:
  assumes "scan_game self e g = Inr (Some opp, self')"
  shows "0 \<le> stake_home opp \<and> stake_home opp \<le> 100
         \<and> 0 \<le> stake_away opp \<and> stake_away opp \<le> 100
         \<and> \<bar>stake_home opp + stake_away opp - 100\<bar> \<le> 1 / 10 ^ 9"
proof -
  let ?h = "odds_to_probability (bq_odds (fst (best_quotes g)))"
  let ?a = "odds_to_probability (bq_odds (snd (best_quotes g)))"
  from assms have acc: "accepts self g" and opp: "opp = built_opportunity e g"
    by (rule scan_game_accepted)+
  from acc have nz: "bq_odds (fst (best_quotes g)) \<noteq> 0" "bq_odds (snd (best_quotes g)) \<noteq> 0"
    by (simp_all add: accepts_def)
  from game_total_prob_pos [OF nz] have h: "0 < ?h" and a: "0 < ?a" by simp_all
  have sh: "stake_home opp = ?h / (?h + ?a) * 100"
    and sa: "stake_away opp = ?a / (?h + ?a) * 100"
    by (simp_all add: opp built_opportunity_def game_total_prob_def Let_def)
  from h a have one: "?h / (?h + ?a) + ?a / (?h + ?a) = 1"
    by (simp add: add_divide_distrib [symmetric])
  from h a have lo: "0 \<le> ?h / (?h + ?a)" "0 \<le> ?a / (?h + ?a)" by simp_all
  from h a have hi: "?h / (?h + ?a) \<le> 1" "?a / (?h + ?a) \<le> 1" by simp_all
  have "stake_home opp + stake_away opp = (?h / (?h + ?a) + ?a / (?h + ?a)) * 100"
    unfolding sh sa by (simp only: distrib_right)
  with one have sum: "stake_home opp + stake_away opp = 100" by simp
  from percent_bounds [OF lo(1) hi(1)] percent_bounds [OF lo(2) hi(2)]
  have "0 \<le> stake_home opp \<and> stake_home opp \<le> 100"
    and "0 \<le> stake_away opp \<and> stake_away opp \<le> 100"
    by (simp_all only: sh sa)
  with sum show ?thesis by simp
qed

theorem stake_percentages_witness:
  "stake_home quarter_opportunity = 50 \<and> stake_away quarter_opportunity = 50
   \<and> 0 \<le> stake_home quarter_opportunity \<and> stake_home quarter_opportunity \<le> 100
   \<and> 0 \<le> stake_away quarter_opportunity \<and> stake_away quarter_opportunity \<le> 100
   \<and> \<bar>stake_home quarter_opportunity + stake_away quarter_opportunity - 100\<bar> \<le> 1 / 10 ^ 9"
  using stake_percentages [OF quarter_scan]
  by (simp add: quarter_opportunity_def)

section \<open>The tests a scan applies\<close>

text \<open>
  C5: when the implied probabilities of the two best prices sum to 1 or more, the sum of
  exactly 1 included, the scan returns none.
\<close>

theorem no_arbitrage_boundary:
  "1 \<le> game_total_prob g \<Longrightarrow> scan_game self e g = Inr (None, self)"
  by (simp add: scan_game_eq accepts_def)

theorem no_arbitrage_boundary_witness:
  "game_total_prob even_game = 1
   \<and> scan_game default_detector example_env even_game = Inr (None, default_detector)"
proof -
  have h: "1 \<le> game_total_prob even_game" by (simp add: even_total)
  from no_arbitrage_boundary [OF h] show ?thesis by (simp add: even_total)
qed

text \<open>
  C6: both thresholds are inclusive. For a game that reaches the threshold tests (two
  bookmaker entries, a best price on each side, a total below 1), a profit equal to the
  minimum is accepted, a profit equal to the maximum is accepted, and the scan returns none
  exactly when the profit is strictly below the minimum or strictly above the maximum.
\<close>

theorem threshold_gating:
  assumes "2 \<le> length (gd_bookmakers g)"
    and "bq_odds (fst (best_quotes g)) \<noteq> 0" and "bq_odds (snd (best_quotes g)) \<noteq> 0"
    and "game_total_prob g < 1"
  shows "(game_profit_pct g = min_profit_threshold self
            \<and> game_profit_pct g \<le> max_profit_threshold self
          \<longrightarrow> (\<exists>opp self'. scan_game self e g = Inr (Some opp, self')
                 \<and> profit_fraction opp = min_profit_threshold self))
       \<and> (game_profit_pct g = max_profit_threshold self
            \<and> min_profit_threshold self \<le> game_profit_pct g
          \<longrightarrow> (\<exists>opp self'. scan_game self e g = Inr (Some opp, self')
                 \<and> profit_fraction opp = max_profit_threshold self))
       \<and> (scan_game self e g = Inr (None, self)
          \<longleftrightarrow> game_profit_pct g < min_profit_threshold self
              \<or> max_profit_threshold self < game_profit_pct g)"
  using assms
  by (auto simp add: scan_game_eq accepts_def profit_fraction_def built_opportunity_def Let_def)

theorem threshold_gating_witness:
  "game_profit_pct quarter_game = 1 / 4
   \<and> (\<exists>opp self'. scan_game (init_detector (1 / 4) (1 / 2)) example_env quarter_game
                     = Inr (Some opp, self') \<and> profit_fraction opp = 1 / 4)
   \<and> (\<exists>opp self'. scan_game (init_detector (1 / 8) (1 / 4)) example_env quarter_game
                     = Inr (Some opp, self') \<and> profit_fraction opp = 1 / 4)
   \<and> scan_game (init_detector (1 / 2) (3 / 4)) example_env quarter_game
       = Inr (None, init_detector (1 / 2) (3 / 4))
   \<and> scan_game (init_detector (1 / 16) (1 / 8)) example_env quarter_game
       = Inr (None, init_detector (1 / 16) (1 / 8))"
proof -
  have a: "2 \<le> length (gd_bookmakers quarter_game)"
    by (simp add: quarter_game_def example_game_def)
  have b: "bq_odds (fst (best_quotes quarter_game)) \<noteq> 0"
    "bq_odds (snd (best_quotes quarter_game)) \<noteq> 0"
    by (simp_all add: quarter_best)
  have c: "game_total_prob quarter_game < 1" by (simp add: quarter_total)
  from threshold_gating [OF a b c, of "init_detector (1 / 4) (1 / 2)" example_env]
    threshold_gating [OF a b c, of "init_detector (1 / 8) (1 / 4)" example_env]
    threshold_gating [OF a b c, of "init_detector (1 / 2) (3 / 4)" example_env]
    threshold_gating [OF a b c, of "init_detector (1 / 16) (1 / 8)" example_env]
  show ?thesis
    by (simp add: quarter_profit init_detector_def)
qed

text \<open>
  C7: a quote whose price is at most 0 is never the best price of a side. The best prices
  are never negative; when every head-to-head quote that names the home team, or every one
  that names the away team, has a price of at most 0, the scan returns none; and the prices
  of a returned opportunity are strictly positive, so the branch of the conversion for
  prices at or below 0 is never taken on behalf of a scan.
\<close>

theorem nonpositive_price_never_best:
  "0 \<le> bq_odds (fst (best_quotes g)) \<and> 0 \<le> bq_odds (snd (best_quotes g))
   \<and> ((\<forall>oc \<in> set (h2h_outcomes g).
          dict_get (oc_name oc) '''' = dict_get (gd_home_team g) ''''
          \<longrightarrow> dict_get (oc_price oc) 0 \<le> 0)
        \<longrightarrow> scan_game self e g = Inr (None, self))
   \<and> ((\<forall>oc \<in> set (h2h_outcomes g).
          dict_get (oc_name oc) '''' = dict_get (gd_away_team g) ''''
          \<longrightarrow> dict_get (oc_price oc) 0 \<le> 0)
        \<longrightarrow> scan_game self e g = Inr (None, self))
   \<and> (\<forall>opp self'. scan_game self e g = Inr (Some opp, self')
        \<longrightarrow> 0 < best_home_odds opp \<and> 0 < best_away_odds opp)"
proof (intro conjI impI allI)
  show "0 \<le> bq_odds (fst (best_quotes g))" and "0 \<le> bq_odds (snd (best_quotes g))"
    using best_quotes_nonneg [of g] by simp_all
next
  assume "\<forall>oc \<in> set (h2h_outcomes g).
     dict_get (oc_name oc) '''' = dict_get (gd_home_team g) ''''
     \<longrightarrow> dict_get (oc_price oc) 0 \<le> 0"
  then have "bq_odds (fst (best_quotes g)) = 0"
    by (simp add: best_home_unset unset_quote_def)
  then show "scan_game self e g = Inr (None, self)"
    by (simp add: scan_game_eq accepts_def)
next
  assume "\<forall>oc \<in> set (h2h_outcomes g).
     dict_get (oc_name oc) '''' = dict_get (gd_away_team g) ''''
     \<longrightarrow> dict_get (oc_price oc) 0 \<le> 0"
  then have "bq_odds (snd (best_quotes g)) = 0"
    by (simp add: best_away_unset unset_quote_def)
  then show "scan_game self e g = Inr (None, self)"
    by (simp add: scan_game_eq accepts_def)
next
  fix opp self'
  assume s: "scan_game self e g = Inr (Some opp, self')"
  then have acc: "accepts self g" and opp: "opp = built_opportunity e g"
    by (rule scan_game_accepted)+
  from acc best_quotes_nonneg [of g]
  have "0 < bq_odds (fst (best_quotes g))" and "0 < bq_odds (snd (best_quotes g))"
    by (simp_all add: accepts_def)
  then show "0 < best_home_odds opp" and "0 < best_away_odds opp"
    by (simp_all add: opp built_opportunity_def Let_def)
qed

theorem nonpositive_price_never_best_witness:
  "map (\<lambda>oc. dict_get (oc_price oc) 0)
     (filter (\<lambda>oc. dict_get (oc_name oc) '''' = dict_get (gd_home_team negative_home_game) '''')
        (h2h_outcomes negative_home_game)) = [- 150, - 120]
   \<and> scan_game default_detector example_env negative_home_game = Inr (None, default_detector)
   \<and> 0 < best_home_odds demo_opportunity \<and> 0 < best_away_odds demo_opportunity"
proof -
  have h: "\<forall>oc \<in> set (h2h_outcomes negative_home_game).
          dict_get (oc_name oc) '''' = dict_get (gd_home_team negative_home_game) ''''
          \<longrightarrow> dict_get (oc_price oc) 0 \<le> 0"
    by (simp add: negative_home_game_def h2h_outcomes_def h2h_of_markets_def example_game_def
        h2h_bookmaker_def dict_get_def)
  have q: "map (\<lambda>oc. dict_get (oc_price oc) 0)
     (filter (\<lambda>oc. dict_get (oc_name oc) '''' = dict_get (gd_home_team negative_home_game) '''')
        (h2h_outcomes negative_home_game)) = [- 150, - 120]"
    by (simp add: negative_home_game_def h2h_outcomes_def h2h_of_markets_def example_game_def
        h2h_bookmaker_def dict_get_def)
  from h demo_scan
    nonpositive_price_never_best [of negative_home_game default_detector example_env]
    nonpositive_price_never_best [of demo_game default_detector example_env]
  have "scan_game default_detector example_env negative_home_game = Inr (None, default_detector)
    \<and> 0 < best_home_odds demo_opportunity \<and> 0 < best_away_odds demo_opportunity"
    by blast
  with q show ?thesis by simp
qed

section \<open>Errors\<close>




section \<open>Scanning a list of games\<close>

text \<open>
  C9: \<^verbatim>\<open>scan_multiple_games\<close> returns exactly the scan results that are not none, sorted
  by descending profit, and the sort is stable: for every profit value, the opportunities
  with that profit come in the order of the input. The sort never fails.
\<close>

theorem scan_multiple_games_sorted_stable:
  "\<exists>res self'. scan_multiple_games self ev games = Inr (res, self')
     \<and> sorted_wrt (\<lambda>a b. profit_fraction a \<ge> profit_fraction b) res
     \<and> set res = set (scan_results self ev 0 games)
     \<and> length res = length (scan_results self ev 0 games)
     \<and> (\<forall>k. filter (\<lambda>opp. profit_fraction opp = k) res
             = filter (\<lambda>opp. profit_fraction opp = k) (scan_results self ev 0 games))"
proof -
  let ?xs = "scan_results self ev 0 games"
  let ?f = "\<lambda>x. - profit_percentage x"
  from scan_loop_eq [of self ev 0 games "[]"] obtain self' where
    l: "scan_loop self ev 0 games [] = Inr (?xs, self')" by auto
  then have r: "scan_multiple_games self ev games = Inr (sort_key ?f ?xs, self')"
    by (simp add: scan_multiple_games_def sort_reverse_def)
  have "sorted (map ?f (sort_key ?f ?xs))" by (rule sorted_sort_key)
  then have s: "sorted_wrt (\<lambda>a b. profit_fraction a \<ge> profit_fraction b) (sort_key ?f ?xs)"
    by (simp add: sorted_map profit_fraction_def sorted_wrt_iff_nth_less)
  have k: "filter (\<lambda>opp. profit_fraction opp = k) (sort_key ?f ?xs)
             = filter (\<lambda>opp. profit_fraction opp = k) ?xs" for k
  proof -
    have "(\<lambda>opp. profit_fraction opp = k) = (\<lambda>opp. ?f opp = - (k * 100))"
      by (auto simp add: profit_fraction_def fun_eq_iff)
    then show ?thesis by (simp only: sort_key_stable)
  qed
  from r s k show ?thesis by simp
qed

theorem scan_multiple_games_sorted_stable_witness:
  "\<exists>res self'.
     scan_multiple_games default_detector (\<lambda>i. example_env) tied_games = Inr (res, self')
     \<and> map game_id res = [''game_b'', ''game_a'', ''game_c'']
     \<and> map profit_fraction res = [5 / 100, 2 / 100, 2 / 100]
     \<and> map game_id (filter (\<lambda>opp. profit_fraction opp = 2 / 100) res)
         = [''game_a'', ''game_c'']"
proof -
  from scan_multiple_games_sorted_stable [of default_detector "\<lambda>i. example_env" tied_games]
  obtain res self' where
    r: "scan_multiple_games default_detector (\<lambda>i. example_env) tied_games = Inr (res, self')"
    by blast
  with tied_scan have "res = [built_opportunity example_env game_b,
           built_opportunity example_env game_a,
           built_opportunity example_env game_c]" by simp
  then have "map game_id res = [''game_b'', ''game_a'', ''game_c'']
     \<and> map profit_fraction res = [5 / 100, 2 / 100, 2 / 100]
     \<and> map game_id (filter (\<lambda>opp. profit_fraction opp = 2 / 100) res)
         = [''game_a'', ''game_c'']"
    by (simp add: tied_built profit_fraction_def)
  with r show ?thesis by (intro exI [of _ res] exI [of _ self']) simp
qed

section \<open>Time sensitivity\<close>

text \<open>
  C10: when the start time of a game is missing or is a string that the parser rejects,
  the classification returns \<open>moderate\<close>; it has no error result. An opportunity built
  from such a game carries that value.
\<close>

theorem unparseable_commence_time_moderate:
  assumes "gd_commence_time g = None
           \<or> (\<exists>s err. gd_commence_time g = Some s \<and> to_datetime e s = Inl err)"
  shows "assess_time_sensitivity e g p = ''moderate''
         \<and> (\<forall>self opp self'. scan_game self e g = Inr (Some opp, self')
              \<longrightarrow> time_sensitivity opp = ''moderate'')"
proof -
  from assms have m: "assess_time_sensitivity e g q = ''moderate''" for q
    by (auto simp add: assess_time_sensitivity_def time_sensitivity_body_def)
  show ?thesis
  proof (intro conjI allI impI)
    show "assess_time_sensitivity e g p = ''moderate''" by (rule m)
  next
    fix self opp self'
    assume "scan_game self e g = Inr (Some opp, self')"
    then have "opp = built_opportunity e g" by (rule scan_game_accepted)
    then show "time_sensitivity opp = ''moderate''"
      by (simp add: built_opportunity_def Let_def m)
  qed
qed

theorem unparseable_commence_time_moderate_witness:
  "to_datetime example_env ''tomorrow evening'' = Inl ParserError
   \<and> assess_time_sensitivity example_env undated_game (38 / 435) = ''moderate''
   \<and> (\<exists>opp self'. scan_game default_detector example_env undated_game = Inr (Some opp, self')
        \<and> time_sensitivity opp = ''moderate'')"
proof -
  have p: "to_datetime example_env ''tomorrow evening'' = Inl ParserError"
    by (simp add: example_env_def)
  have c: "gd_commence_time undated_game = Some ''tomorrow evening''"
    by (simp add: undated_game_def example_game_def)
  from p c have h: "gd_commence_time undated_game = None
     \<or> (\<exists>s err. gd_commence_time undated_game = Some s \<and> to_datetime example_env s = Inl err)"
    by blast
  have s: "\<exists>opp self'. scan_game default_detector example_env undated_game
             = Inr (Some opp, self')"
    by (simp add: scan_game_eq undated_accepts)
  from p s unparseable_commence_time_moderate [OF h, of "38 / 435"] show ?thesis by blast
qed

end
